theory Spec2Isabelle
  imports Main "HOL-Library.Word"
begin

section \<open>JavaScript values\<close>

text \<open>
  The module \<^verbatim>\<open>ThreeDS2/components/utils.ts\<close> works on texts, on plain objects and
  on the values \<^verbatim>\<open>JSON.parse\<close> returns.

  A text (a token, a base64 payload, a JSON text, a field of a result object, a size, an
  error code, a key of a configuration table) is a \<open>string\<close>: a list of 8-bit
  characters, which is what base64 works on.

  A string value that \<^verbatim>\<open>JSON.parse\<close> returns is a list of 16-bit code units: an escape
  \<^verbatim>\<open>\uXXXX\<close> of the JSON text denotes any of them, and so does a key of a parsed
  object. \<open>code_unit c\<close> is the code unit of the character \<open>c\<close>, and \<open>wide s\<close> the
  string value with the characters of the text \<open>s\<close>.
\<close>

definition code_unit :: "char \<Rightarrow> 16 word" where
  "code_unit c = of_nat (of_char c)"

definition wide :: "string \<Rightarrow> 16 word list" where
  "wide s = map code_unit s"

text \<open>
  A number is kept as the literal it was read from: no function of the module inspects
  one. \<open>Inherited k\<close> is the member \<open>k\<close> that a plain object inherits from
  \<^verbatim>\<open>Object.prototype\<close> (a function or an accessor's object, never a string). The
  properties of an object stand in the order in which they were first stored; nothing in
  the module enumerates them.
\<close>

datatype jsval =
    Undefined
  | Null
  | Bool bool
  | Num string
  | JStr "16 word list"
  | Arr "jsval list"
  | JObj "(16 word list \<times> jsval) list"
  | Inherited string

text \<open>
  The string value with the characters of a text, and the object whose keys are texts.
\<close>

definition Str :: "string \<Rightarrow> jsval" where
  "Str s = JStr (wide s)"

definition Obj :: "(string \<times> jsval) list \<Rightarrow> jsval" where
  "Obj ps = JObj (map (\<lambda>(k, v). (wide k, v)) ps)"

text \<open>
  A table of \<^verbatim>\<open>../config\<close> is a plain object whose keys are texts: its own properties,
  with distinct keys.
\<close>

type_synonym js_object = "(string \<times> jsval) list"

text \<open>The names every plain object inherits from \<^verbatim>\<open>Object.prototype\<close>.\<close>

definition Object_prototype :: "string list" where
  "Object_prototype =
     [''constructor'', ''hasOwnProperty'', ''isPrototypeOf'', ''propertyIsEnumerable'',
      ''toLocaleString'', ''toString'', ''valueOf'', ''__proto__'',
      ''__defineGetter__'', ''__defineSetter__'', ''__lookupGetter__'', ''__lookupSetter__'']"

text \<open>\<^verbatim>\<open>Object.prototype.hasOwnProperty.call(obj, k)\<close>: own properties only.\<close>

definition hasOwnProperty :: "js_object \<Rightarrow> string \<Rightarrow> bool" where
  "hasOwnProperty obj k = (k \<in> set (map fst obj))"

text \<open>
  \<^verbatim>\<open>obj[k]\<close> on a plain object: the own property when there is one, else the member
  inherited from \<^verbatim>\<open>Object.prototype\<close>, else \<^verbatim>\<open>undefined\<close>.
\<close>

definition get_property :: "js_object \<Rightarrow> string \<Rightarrow> jsval" where
  "get_property obj k =
     (case map_of obj k of
        Some v \<Rightarrow> v
      | None \<Rightarrow> if k \<in> set Object_prototype then Inherited k else Undefined)"

text \<open>
  Storing a property as \<^verbatim>\<open>JSON.parse\<close> does: a repeated key keeps its place and takes
  the later value.
\<close>

fun define_property :: "('k \<times> 'v) list \<Rightarrow> 'k \<Rightarrow> 'v \<Rightarrow> ('k \<times> 'v) list" where
  "define_property [] k v = [(k, v)]"
| "define_property ((k', v') # ps) k v =
     (if k' = k then (k, v) # ps else (k', v') # define_property ps k v)"

text \<open>
  Truthiness of an optional string (\<open>None\<close> is \<^verbatim>\<open>undefined\<close>): only a non-empty
  string is truthy.
\<close>

definition truthy :: "string option \<Rightarrow> bool" where
  "truthy v = (case v of None \<Rightarrow> False | Some s \<Rightarrow> s \<noteq> [])"

section \<open>JSON\<close>

subsection \<open>\<^verbatim>\<open>JSON.stringify\<close> of an object of optional strings\<close>

definition hex_digit :: "nat \<Rightarrow> char" where
  "hex_digit k = char_of (if k < 10 then 48 + k else 87 + k)"

text \<open>
  One character of a quoted string: the short escapes, \<^verbatim>\<open>\u00XX\<close> for the other
  control characters, and every other character as it is.
\<close>

definition quote_char :: "char \<Rightarrow> string" where
  "quote_char c =
     (let n = (of_char c :: nat) in
      if n = 8 then [CHR 0x5C, CHR ''b'']
      else if n = 9 then [CHR 0x5C, CHR ''t'']
      else if n = 10 then [CHR 0x5C, CHR ''n'']
      else if n = 12 then [CHR 0x5C, CHR ''f'']
      else if n = 13 then [CHR 0x5C, CHR ''r'']
      else if n = 34 then [CHR 0x5C, CHR 0x22]
      else if n = 92 then [CHR 0x5C, CHR 0x5C]
      else if n < 32 then
        [CHR 0x5C, CHR ''u'', CHR ''0'', CHR ''0'', hex_digit (n div 16), hex_digit (n mod 16)]
      else [c])"

definition QuoteJSONString :: "string \<Rightarrow> string" where
  "QuoteJSONString s = CHR 0x22 # concat (map quote_char s) @ [CHR 0x22]"

text \<open>A property whose value is \<^verbatim>\<open>undefined\<close> is left out of the text.\<close>

fun members :: "(string \<times> string option) list \<Rightarrow> string list" where
  "members [] = []"
| "members ((k, None) # ps) = members ps"
| "members ((k, Some v) # ps) = (QuoteJSONString k @ CHR '':'' # QuoteJSONString v) # members ps"

fun join_commas :: "string list \<Rightarrow> string" where
  "join_commas [] = []"
| "join_commas [m] = m"
| "join_commas (m # ms) = m @ CHR '','' # join_commas ms"

definition JSON_stringify :: "(string \<times> string option) list \<Rightarrow> string" where
  "JSON_stringify props = CHR ''{'' # join_commas (members props) @ [CHR ''}'']"

subsection \<open>\<^verbatim>\<open>JSON.parse\<close>: the lexer\<close>

datatype token =
    LBRACE | RBRACE | LBRACKET | RBRACKET | COLON | COMMA
  | STRING "16 word list" | NUMBER string | TRUE | FALSE | NULL

definition hex_value :: "char \<Rightarrow> nat option" where
  "hex_value c =
     (let n = (of_char c :: nat) in
      if 48 \<le> n \<and> n \<le> 57 then Some (n - 48)
      else if 97 \<le> n \<and> n \<le> 102 then Some (n - 87)
      else if 65 \<le> n \<and> n \<le> 70 then Some (n - 55)
      else None)"

definition hex4 :: "char \<Rightarrow> char \<Rightarrow> char \<Rightarrow> char \<Rightarrow> nat option" where
  "hex4 a b c d =
     (case hex_value a of None \<Rightarrow> None | Some w \<Rightarrow>
     (case hex_value b of None \<Rightarrow> None | Some x \<Rightarrow>
     (case hex_value c of None \<Rightarrow> None | Some y \<Rightarrow>
     (case hex_value d of None \<Rightarrow> None | Some z \<Rightarrow>
        Some (4096 * w + 256 * x + 16 * y + z)))))"

definition unescape :: "char \<Rightarrow> char option" where
  "unescape e =
     (if e = CHR 0x22 then Some (CHR 0x22)
      else if e = CHR 0x5C then Some (CHR 0x5C)
      else if e = CHR ''/'' then Some (CHR ''/'')
      else if e = CHR ''b'' then Some (CHR 0x08)
      else if e = CHR ''f'' then Some (CHR 0x0C)
      else if e = CHR ''n'' then Some (CHR 0x0A)
      else if e = CHR ''r'' then Some (CHR 0x0D)
      else if e = CHR ''t'' then Some (CHR 0x09)
      else None)"

text \<open>
  What follows a backslash inside a string literal: the code unit the escape denotes and
  the text after it. The four hexadecimal digits of \<^verbatim>\<open>\uXXXX\<close> denote any code unit,
  a half of a surrogate pair included.
\<close>

definition lex_escape :: "string \<Rightarrow> (16 word \<times> string) option" where
  "lex_escape cs =
     (case cs of
        [] \<Rightarrow> None
      | e # es \<Rightarrow>
          if e = CHR ''u'' then
            (case es of
               h1 # h2 # h3 # h4 # r \<Rightarrow>
                 (case hex4 h1 h2 h3 h4 of
                    None \<Rightarrow> None
                  | Some n \<Rightarrow> Some (of_nat n, r))
             | _ \<Rightarrow> None)
          else (case unescape e of None \<Rightarrow> None | Some ch \<Rightarrow> Some (code_unit ch, es)))"

lemma lex_escape_shorter: "lex_escape cs = Some (ch, r) \<Longrightarrow> length r < length cs"
  unfolding lex_escape_def
  by (auto split: list.splits if_splits option.splits)

text \<open>
  The characters of a string literal after its opening quote: the string value they denote
  and the text after the closing quote. A raw control character, an unknown escape and the
  end of the text before the closing quote are errors.
\<close>

function lex_string :: "string \<Rightarrow> (16 word list \<times> string) option" where
  "lex_string [] = None"
| "lex_string (c # cs) =
     (if c = CHR 0x22 then Some ([], cs)
      else if c = CHR 0x5C then
        (case lex_escape cs of
           None \<Rightarrow> None
         | Some (ch, r) \<Rightarrow> map_option (apfst ((#) ch)) (lex_string r))
      else if (of_char c :: nat) < 32 then None
      else map_option (apfst ((#) (code_unit c))) (lex_string cs))"
  by pat_completeness auto
termination
  by (relation "measure length") (auto dest: lex_escape_shorter)

lemma lex_string_shorter: "lex_string cs = Some (s, r) \<Longrightarrow> length r < length cs"
proof (induction cs arbitrary: s r rule: lex_string.induct)
  case 1
  then show ?case by simp
next
  case (2 c cs)
  show ?case
  proof (cases "c = CHR 0x22")
    case True
    with "2.prems" show ?thesis by simp
  next
    case nq: False
    show ?thesis
    proof (cases "c = CHR 0x5C")
      case True
      with nq "2.prems" obtain ch r' s' where e: "lex_escape cs = Some (ch, r')"
        and l: "lex_string r' = Some (s', r)"
        by (auto split: option.splits)
      from "2.IH"(1)[OF nq True e refl l] lex_escape_shorter[OF e] show ?thesis by simp
    next
      case False
      with nq "2.prems" obtain s' where c: "\<not> (of_char c :: nat) < 32"
        and l: "lex_string cs = Some (s', r)"
        by (auto split: if_splits)
      from "2.IH"(2)[OF nq False c l] show ?thesis by simp
    qed
  qed
qed

definition is_digit :: "char \<Rightarrow> bool" where
  "is_digit c = (48 \<le> (of_char c :: nat) \<and> (of_char c :: nat) \<le> 57)"

definition is_ws :: "char \<Rightarrow> bool" where
  "is_ws c = (c = CHR '' '' \<or> c = CHR 0x09 \<or> c = CHR 0x0A \<or> c = CHR 0x0D)"

definition is_number_char :: "char \<Rightarrow> bool" where
  "is_number_char c =
     (is_digit c \<or> c = CHR ''-'' \<or> c = CHR ''+'' \<or> c = CHR ''.'' \<or> c = CHR ''e'' \<or> c = CHR ''E'')"

text \<open>The grammar of a number: sign, integer part, fraction, exponent.\<close>

definition digits :: "string \<Rightarrow> bool" where
  "digits ds = (ds \<noteq> [] \<and> list_all is_digit ds)"

definition exponent :: "string \<Rightarrow> bool" where
  "exponent cs =
     (case cs of
        [] \<Rightarrow> True
      | c # r \<Rightarrow>
          (c = CHR ''e'' \<or> c = CHR ''E'') \<and>
          (case r of
             [] \<Rightarrow> False
           | s # ds \<Rightarrow> if s = CHR ''+'' \<or> s = CHR ''-'' then digits ds else digits r))"

definition fraction :: "string \<Rightarrow> bool" where
  "fraction cs =
     (case cs of
        [] \<Rightarrow> True
      | c # r \<Rightarrow>
          if c = CHR ''.'' then takeWhile is_digit r \<noteq> [] \<and> exponent (dropWhile is_digit r)
          else exponent cs)"

definition integer :: "string \<Rightarrow> bool" where
  "integer cs =
     (case cs of
        [] \<Rightarrow> False
      | c # r \<Rightarrow>
          if c = CHR ''0'' then fraction r
          else if is_digit c then fraction (dropWhile is_digit r)
          else False)"

definition valid_number :: "string \<Rightarrow> bool" where
  "valid_number cs =
     (case cs of
        [] \<Rightarrow> False
      | c # r \<Rightarrow> if c = CHR ''-'' then integer r else integer cs)"

definition punctuation :: "char \<Rightarrow> token option" where
  "punctuation c =
     (if c = CHR ''{'' then Some LBRACE
      else if c = CHR ''}'' then Some RBRACE
      else if c = CHR ''['' then Some LBRACKET
      else if c = CHR '']'' then Some RBRACKET
      else if c = CHR '':'' then Some COLON
      else if c = CHR '','' then Some COMMA
      else None)"

definition keyword :: "string \<Rightarrow> token \<Rightarrow> string \<Rightarrow> (token \<times> string) option" where
  "keyword w t cs = (if take (length w) cs = w then Some (t, drop (length w) cs) else None)"

definition literal_name :: "char \<Rightarrow> string \<Rightarrow> (token \<times> string) option" where
  "literal_name c cs =
     (if c = CHR ''t'' then keyword ''rue'' TRUE cs
      else if c = CHR ''f'' then keyword ''alse'' FALSE cs
      else if c = CHR ''n'' then keyword ''ull'' NULL cs
      else None)"

definition number :: "char \<Rightarrow> string \<Rightarrow> (token \<times> string) option" where
  "number c cs =
     (if valid_number (c # takeWhile is_number_char cs)
      then Some (NUMBER (c # takeWhile is_number_char cs), dropWhile is_number_char cs)
      else None)"

text \<open>The token that starts with the character \<open>c\<close>, and the text after it.\<close>

definition next_token :: "char \<Rightarrow> string \<Rightarrow> (token \<times> string) option" where
  "next_token c cs =
     (case punctuation c of
        Some t \<Rightarrow> Some (t, cs)
      | None \<Rightarrow>
          if c = CHR 0x22 then
            (case lex_string cs of None \<Rightarrow> None | Some (s, r) \<Rightarrow> Some (STRING s, r))
          else if c = CHR ''-'' \<or> is_digit c then number c cs
          else literal_name c cs)"

lemma keyword_shorter: "keyword w t cs = Some (t', r) \<Longrightarrow> length r \<le> length cs"
  unfolding keyword_def by (auto split: if_splits)

lemma literal_name_shorter: "literal_name c cs = Some (t, r) \<Longrightarrow> length r \<le> length cs"
  unfolding literal_name_def by (auto split: if_splits dest: keyword_shorter)

lemma number_shorter: "number c cs = Some (t, r) \<Longrightarrow> length r \<le> length cs"
  unfolding number_def by (auto split: if_splits simp: length_dropWhile_le)

lemma next_token_shorter: "next_token c cs = Some (t, r) \<Longrightarrow> length r \<le> length cs"
  unfolding next_token_def
  by (auto split: if_splits option.splits
        dest: lex_string_shorter literal_name_shorter number_shorter)

function lex :: "string \<Rightarrow> token list option" where
  "lex [] = Some []"
| "lex (c # cs) =
     (if is_ws c then lex cs
      else
        (case next_token c cs of
           None \<Rightarrow> None
         | Some (t, r) \<Rightarrow> map_option ((#) t) (lex r)))"
  by pat_completeness auto
termination
  by (relation "measure length") (auto dest: next_token_shorter)

subsection \<open>\<^verbatim>\<open>JSON.parse\<close>: the parser\<close>

text \<open>
  The parser reads the tokens from left to right with a stack of the arrays and objects
  that are still open, and an expectation of what may come next.
\<close>

datatype frame =
    In_array "jsval list"
  | In_object "(16 word list \<times> jsval) list"
  | In_member "(16 word list \<times> jsval) list" "16 word list"

datatype expect =
    Value
  | Value_or_close
  | Key_or_close
  | Key
  | Colon "16 word list"
  | Done jsval

fun begin_value :: "token \<Rightarrow> frame list \<Rightarrow> (expect \<times> frame list) option" where
  "begin_value (STRING s) st = Some (Done (JStr s), st)"
| "begin_value (NUMBER n) st = Some (Done (Num n), st)"
| "begin_value TRUE st = Some (Done (Bool True), st)"
| "begin_value FALSE st = Some (Done (Bool False), st)"
| "begin_value NULL st = Some (Done Null, st)"
| "begin_value LBRACKET st = Some (Value_or_close, In_array [] # st)"
| "begin_value LBRACE st = Some (Key_or_close, In_object [] # st)"
| "begin_value _ st = None"

fun begin_key :: "token \<Rightarrow> frame list \<Rightarrow> (expect \<times> frame list) option" where
  "begin_key (STRING k) st = Some (Colon k, st)"
| "begin_key _ st = None"

text \<open>After a complete value: a comma or the close of the innermost open container.\<close>

definition after_value :: "jsval \<Rightarrow> frame list \<Rightarrow> token \<Rightarrow> (expect \<times> frame list) option" where
  "after_value v st t =
     (case st of
        [] \<Rightarrow> None
      | In_array vs # st' \<Rightarrow>
          (case t of
             COMMA \<Rightarrow> Some (Value, In_array (vs @ [v]) # st')
           | RBRACKET \<Rightarrow> Some (Done (Arr (vs @ [v])), st')
           | _ \<Rightarrow> None)
      | In_object ps # st' \<Rightarrow> None
      | In_member ps k # st' \<Rightarrow>
          (case t of
             COMMA \<Rightarrow> Some (Key, In_object (define_property ps k v) # st')
           | RBRACE \<Rightarrow> Some (Done (JObj (define_property ps k v)), st')
           | _ \<Rightarrow> None))"

definition step :: "expect \<Rightarrow> frame list \<Rightarrow> token \<Rightarrow> (expect \<times> frame list) option" where
  "step e st t =
     (case e of
        Value \<Rightarrow> begin_value t st
      | Value_or_close \<Rightarrow>
          (case t of
             RBRACKET \<Rightarrow>
               (case st of In_array vs # st' \<Rightarrow> Some (Done (Arr vs), st') | _ \<Rightarrow> None)
           | _ \<Rightarrow> begin_value t st)
      | Key_or_close \<Rightarrow>
          (case t of
             RBRACE \<Rightarrow>
               (case st of In_object ps # st' \<Rightarrow> Some (Done (JObj ps), st') | _ \<Rightarrow> None)
           | _ \<Rightarrow> begin_key t st)
      | Key \<Rightarrow> begin_key t st
      | Colon k \<Rightarrow>
          (case t of
             COLON \<Rightarrow>
               (case st of In_object ps # st' \<Rightarrow> Some (Value, In_member ps k # st') | _ \<Rightarrow> None)
           | _ \<Rightarrow> None)
      | Done v \<Rightarrow> after_value v st t)"

fun run :: "expect \<Rightarrow> frame list \<Rightarrow> token list \<Rightarrow> jsval option" where
  "run e st [] = (case e of Done v \<Rightarrow> (if st = [] then Some v else None) | _ \<Rightarrow> None)"
| "run e st (t # ts) = (case step e st t of None \<Rightarrow> None | Some (e', st') \<Rightarrow> run e' st' ts)"

text \<open>\<^verbatim>\<open>JSON.parse\<close>: \<open>None\<close> is the \<^verbatim>\<open>SyntaxError\<close> it throws.\<close>

definition JSON_parse :: "string \<Rightarrow> jsval option" where
  "JSON_parse s = (case lex s of None \<Rightarrow> None | Some ts \<Rightarrow> run Value [] ts)"

section \<open>Base64\<close>

text \<open>
  Modelled from the spec: the codec behind \<^verbatim>\<open>base64.encode\<close> and
  \<^verbatim>\<open>base64.decode\<close> of \<^verbatim>\<open>utils/base64\<close>, which is not among the sources. The
  specification says ``base64-encode'' and ``base64-decodes'', the two ``strictly
  symmetric''; this is the base64 of RFC 4648, with padding.

  A sextet as its character and back; the padding character \<^verbatim>\<open>=\<close> has no value.
\<close>

definition b64_char :: "nat \<Rightarrow> char" where
  "b64_char n =
     char_of (if n < 26 then 65 + n
              else if n < 52 then 71 + n
              else if n < 62 then n - 4
              else if n = 62 then 43
              else 47)"

definition b64_value :: "char \<Rightarrow> nat option" where
  "b64_value c =
     (let n = (of_char c :: nat) in
      if 65 \<le> n \<and> n \<le> 90 then Some (n - 65)
      else if 97 \<le> n \<and> n \<le> 122 then Some (n - 71)
      else if 48 \<le> n \<and> n \<le> 57 then Some (n + 4)
      else if n = 43 then Some 62
      else if n = 47 then Some 63
      else None)"

text \<open>Three bytes become four characters; a last group of one or two bytes is padded.\<close>

fun b64_encode_bytes :: "nat list \<Rightarrow> string" where
  "b64_encode_bytes [] = []"
| "b64_encode_bytes [a] =
     [b64_char (a div 4), b64_char ((a mod 4) * 16), CHR ''='', CHR ''='']"
| "b64_encode_bytes [a, b] =
     [b64_char (a div 4), b64_char ((a mod 4) * 16 + b div 16), b64_char ((b mod 16) * 4),
      CHR ''='']"
| "b64_encode_bytes (a # b # c # r) =
     b64_char (a div 4) # b64_char ((a mod 4) * 16 + b div 16) #
     b64_char ((b mod 16) * 4 + c div 64) # b64_char (c mod 64) # b64_encode_bytes r"

definition b64_encode :: "string \<Rightarrow> string" where
  "b64_encode s = b64_encode_bytes (map of_char s)"

text \<open>The bytes of a group of four characters, none of them padding.\<close>

definition b64_group :: "char \<Rightarrow> char \<Rightarrow> char \<Rightarrow> char \<Rightarrow> nat list option" where
  "b64_group w x y z =
     (case b64_value w of None \<Rightarrow> None | Some a \<Rightarrow>
     (case b64_value x of None \<Rightarrow> None | Some b \<Rightarrow>
     (case b64_value y of None \<Rightarrow> None | Some c \<Rightarrow>
     (case b64_value z of None \<Rightarrow> None | Some d \<Rightarrow>
        Some [a * 4 + b div 16, (b mod 16) * 16 + c div 4, (c mod 4) * 64 + d]))))"

text \<open>The bytes of the last group, which may end in one or two padding characters.\<close>

definition b64_last_group :: "char \<Rightarrow> char \<Rightarrow> char \<Rightarrow> char \<Rightarrow> nat list option" where
  "b64_last_group w x y z =
     (if z = CHR ''='' then
        (case b64_value w of None \<Rightarrow> None | Some a \<Rightarrow>
        (case b64_value x of None \<Rightarrow> None | Some b \<Rightarrow>
           if y = CHR ''='' then Some [a * 4 + b div 16]
           else
             (case b64_value y of None \<Rightarrow> None | Some c \<Rightarrow>
                Some [a * 4 + b div 16, (b mod 16) * 16 + c div 4])))
      else b64_group w x y z)"

fun b64_decode_chars :: "string \<Rightarrow> nat list option" where
  "b64_decode_chars [] = Some []"
| "b64_decode_chars (w # x # y # z # r) =
     (if r = [] then b64_last_group w x y z
      else
        (case b64_group w x y z of
           None \<Rightarrow> None
         | Some bs \<Rightarrow> map_option ((@) bs) (b64_decode_chars r)))"
| "b64_decode_chars _ = None"

text \<open>\<open>None\<close>: the text is not base64.\<close>

definition b64_decode :: "string \<Rightarrow> string option" where
  "b64_decode t = map_option (map char_of) (b64_decode_chars t)"

section \<open>What the module imports\<close>

text \<open>
  \<^verbatim>\<open>utils.ts\<close> imports four constants from \<^verbatim>\<open>../config\<close>, and the helpers
  \<^verbatim>\<open>getOrigin\<close> and \<^verbatim>\<open>base64\<close>. Their files are not among the sources, so the
  functions of the module take them as a parameter.

  \<^verbatim>\<open>base64.decode\<close> is called outside the \<^verbatim>\<open>try\<close> block of
  \<^verbatim>\<open>decodeAndParseToken\<close> and its result is tested for truthiness, so three outcomes
  are told apart: it returns text, it returns a falsy value that is not text, it throws.
\<close>

datatype falsy = Falsy_undefined | Falsy_null | Falsy_false

fun falsy_value :: "falsy \<Rightarrow> jsval" where
  "falsy_value Falsy_undefined = Undefined"
| "falsy_value Falsy_null = Null"
| "falsy_value Falsy_false = Bool False"

datatype decoded =
    Text string
  | Nothing falsy
  | Throws string

record imported =
  ERROR_MESSAGES :: js_object
  ERRORS_UNKNOWN :: string
  CHALLENGE_WINDOW_SIZES :: js_object
  DEFAULT_CHALLENGE_WINDOW_SIZE :: string
  getOrigin :: "jsval \<Rightarrow> jsval"
  base64_decode :: "string \<Rightarrow> decoded"
  base64_encode :: "string \<Rightarrow> string"

section \<open>The module \<^verbatim>\<open>utils.ts\<close>\<close>

text \<open>
  The errors the module throws, by their messages; \<open>TypeError\<close> is what destructuring
  \<^verbatim>\<open>null\<close> or \<^verbatim>\<open>undefined\<close> throws, and \<open>Thrown_by_base64\<close> an exception of
  \<^verbatim>\<open>base64.decode\<close>, which passes through the module unchanged.
\<close>

datatype error =
    Could_not_decode_token
  | No_threeDS2_request_details_found
  | No_data_available_to_create_a_result
  | TypeError
  | Thrown_by_base64 string

text \<open>
  The fields of a \<^verbatim>\<open>ResultObject\<close> are optional strings; \<open>None\<close> is a field that is
  absent.
\<close>

record ResultObject =
  threeDSCompInd :: "string option"
  transStatus :: "string option"

record ErrorObject =
  errorCode :: string
  message :: jsval

record CReqData =
  acsTransID :: jsval
  messageVersion :: jsval
  threeDSServerTransID :: jsval
  messageType :: string
  challengeWindowSize :: string

record ChallengeData =
  acsURL :: jsval
  cReqData :: CReqData
  iframeSizeArr :: jsval
  postMessageDomain :: jsval

record FingerPrintData =
  threeDSServerTransID :: jsval
  threeDSMethodURL :: jsval
  threeDSMethodNotificationURL :: jsval
  postMessageDomain :: jsval

text \<open>
  Truthiness of a value. A number is falsy when its literal denotes zero (a literal so
  small that it rounds to zero is not told apart here).
\<close>

definition zero_literal :: "string \<Rightarrow> bool" where
  "zero_literal lit =
     list_all (\<lambda>c. c = CHR ''0'' \<or> c = CHR ''-'' \<or> c = CHR ''.'')
       (takeWhile (\<lambda>c. c \<noteq> CHR ''e'' \<and> c \<noteq> CHR ''E'') lit)"

fun truthy_value :: "jsval \<Rightarrow> bool" where
  "truthy_value Undefined = False"
| "truthy_value Null = False"
| "truthy_value (Bool b) = b"
| "truthy_value (Num lit) = (\<not> zero_literal lit)"
| "truthy_value (JStr s) = (s \<noteq> [])"
| "truthy_value (Arr vs) = True"
| "truthy_value (JObj ps) = True"
| "truthy_value (Inherited k) = True"

text \<open>\<^verbatim>\<open>a || b\<close>\<close>

definition or_else :: "jsval \<Rightarrow> jsval \<Rightarrow> jsval" where
  "or_else a b = (if truthy_value a then a else b)"

text \<open>
  Destructuring \<^verbatim>\<open>const { k } = v\<close> throws on \<^verbatim>\<open>null\<close> and \<^verbatim>\<open>undefined\<close>. On an
  object it reads the property \<open>k\<close>. On any other value it reads \<open>k\<close> from the prototype
  of the value's wrapper: \<^verbatim>\<open>undefined\<close> for each of the seven names this module
  destructures, none of which a built-in prototype defines.
\<close>

fun nullish :: "jsval \<Rightarrow> bool" where
  "nullish Undefined = True"
| "nullish Null = True"
| "nullish _ = False"

fun property_of :: "jsval \<Rightarrow> string \<Rightarrow> jsval" where
  "property_of (JObj ps) k =
     (case map_of ps (wide k) of
        Some v \<Rightarrow> v
      | None \<Rightarrow> if k \<in> set Object_prototype then Inherited k else Undefined)"
| "property_of _ k = Undefined"

text \<open>
  \<^verbatim>\<open>
  export const decodeAndParseToken = (token: string): ThreeDS2Token => {
      const decodedToken = base64.decode(token);
      try {
          return decodedToken && JSON.parse(decodedToken);
      } catch (e) {
          throw new Error('Could not decode token');
      }
  };
  \<close>
\<close>

definition decodeAndParseToken :: "imported \<Rightarrow> string \<Rightarrow> error + jsval" where
  "decodeAndParseToken imp token =
     (case base64_decode imp token of
        Throws e \<Rightarrow> Inl (Thrown_by_base64 e)
      | Nothing f \<Rightarrow> Inr (falsy_value f)
      | Text decodedToken \<Rightarrow>
          if decodedToken = [] then Inr (Str decodedToken)
          else
            (case JSON_parse decodedToken of
               None \<Rightarrow> Inl Could_not_decode_token
             | Some v \<Rightarrow> Inr v))"

text \<open>
  \<^verbatim>\<open>
  export const encodeResult = (result: ResultObject, type: string): string => {
      const { threeDSCompInd, transStatus } = result;
      if (!threeDSCompInd && !transStatus) {
          throw new Error('No threeDS2 request details found');
      }
      switch (type) {
          case 'IdentifyShopper':
              return base64.encode(JSON.stringify({ threeDSCompInd }));
          case 'ChallengeShopper':
              return base64.encode(JSON.stringify({ transStatus }));
          default:
              throw new Error('No data available to create a result');
      }
  };
  \<close>
\<close>

definition encodeResult :: "imported \<Rightarrow> ResultObject \<Rightarrow> string \<Rightarrow> error + string" where
  "encodeResult imp result type =
     (if \<not> truthy (threeDSCompInd result) \<and> \<not> truthy (transStatus result)
      then Inl No_threeDS2_request_details_found
      else if type = ''IdentifyShopper''
      then Inr (base64_encode imp (JSON_stringify [(''threeDSCompInd'', threeDSCompInd result)]))
      else if type = ''ChallengeShopper''
      then Inr (base64_encode imp (JSON_stringify [(''transStatus'', transStatus result)]))
      else Inl No_data_available_to_create_a_result)"

text \<open>
  \<^verbatim>\<open>
  export const validateChallengeWindowSize = (sizeStr: string): string => {
      const sizeString = sizeStr.length === 1 ? `0${sizeStr}` : sizeStr;
      const hasSize = Object.prototype.hasOwnProperty.call(CHALLENGE_WINDOW_SIZES, sizeString);
      return hasSize ? sizeString : DEFAULT_CHALLENGE_WINDOW_SIZE;
  };
  \<close>
\<close>

definition validateChallengeWindowSize :: "imported \<Rightarrow> string \<Rightarrow> string" where
  "validateChallengeWindowSize imp sizeStr =
     (let sizeString = (if length sizeStr = 1 then CHR ''0'' # sizeStr else sizeStr);
          hasSize = hasOwnProperty (CHALLENGE_WINDOW_SIZES imp) sizeString
      in if hasSize then sizeString else DEFAULT_CHALLENGE_WINDOW_SIZE imp)"

text \<open>
  \<^verbatim>\<open>
  export const getChallengeWindowSize = (sizeStr: string): string[] =>
      CHALLENGE_WINDOW_SIZES[validateChallengeWindowSize(sizeStr)];
  \<close>
\<close>

definition getChallengeWindowSize :: "imported \<Rightarrow> string \<Rightarrow> jsval" where
  "getChallengeWindowSize imp sizeStr =
     get_property (CHALLENGE_WINDOW_SIZES imp) (validateChallengeWindowSize imp sizeStr)"

text \<open>
  \<^verbatim>\<open>
  export const prepareChallengeData = ({ token, size, notificationURL }): ChallengeData => {
      const decodedChallengeToken = decodeAndParseToken(token);
      const { acsTransID, acsURL, messageVersion, threeDSNotificationURL, threeDSServerTransID } =
          decodedChallengeToken;
      const receivedNotificationURL = notificationURL || threeDSNotificationURL;
      const notificationURLOrigin = getOrigin(receivedNotificationURL);
      return {
          acsURL,
          cReqData: {
              acsTransID,
              messageVersion,
              threeDSServerTransID,
              messageType: 'CReq',
              challengeWindowSize: validateChallengeWindowSize(size)
          },
          iframeSizeArr: getChallengeWindowSize(size),
          postMessageDomain: notificationURLOrigin
      };
  };
  \<close>
\<close>

definition prepareChallengeData ::
  "imported \<Rightarrow> string \<Rightarrow> string \<Rightarrow> jsval \<Rightarrow> error + ChallengeData" where
  "prepareChallengeData imp token size' notificationURL =
     (case decodeAndParseToken imp token of
        Inl e \<Rightarrow> Inl e
      | Inr decodedChallengeToken \<Rightarrow>
          if nullish decodedChallengeToken then Inl TypeError
          else
            (let threeDSNotificationURL = property_of decodedChallengeToken ''threeDSNotificationURL'';
                 receivedNotificationURL = or_else notificationURL threeDSNotificationURL;
                 notificationURLOrigin = getOrigin imp receivedNotificationURL
             in Inr \<lparr>acsURL = property_of decodedChallengeToken ''acsURL'',
                     cReqData =
                       \<lparr>acsTransID = property_of decodedChallengeToken ''acsTransID'',
                        messageVersion = property_of decodedChallengeToken ''messageVersion'',
                        CReqData.threeDSServerTransID =
                          property_of decodedChallengeToken ''threeDSServerTransID'',
                        messageType = ''CReq'',
                        challengeWindowSize = validateChallengeWindowSize imp size'\<rparr>,
                     iframeSizeArr = getChallengeWindowSize imp size',
                     ChallengeData.postMessageDomain = notificationURLOrigin\<rparr>))"

text \<open>
  \<^verbatim>\<open>
  export const prepareFingerPrintData = ({ token, notificationURL }): FingerPrintData => {
      const decodedFingerPrintToken = decodeAndParseToken(token);
      const { threeDSMethodNotificationURL, threeDSMethodUrl: threeDSMethodURL, threeDSServerTransID } =
          decodedFingerPrintToken;
      const receivedNotificationURL = notificationURL || threeDSMethodNotificationURL;
      const notificationURLOrigin = getOrigin(receivedNotificationURL);
      return {
          threeDSServerTransID,
          threeDSMethodURL,
          threeDSMethodNotificationURL: receivedNotificationURL,
          postMessageDomain: notificationURLOrigin
      };
  };
  \<close>
\<close>

definition prepareFingerPrintData :: "imported \<Rightarrow> string \<Rightarrow> jsval \<Rightarrow> error + FingerPrintData" where
  "prepareFingerPrintData imp token notificationURL =
     (case decodeAndParseToken imp token of
        Inl e \<Rightarrow> Inl e
      | Inr decodedFingerPrintToken \<Rightarrow>
          if nullish decodedFingerPrintToken then Inl TypeError
          else
            (let receivedNotificationURL =
                   or_else notificationURL
                     (property_of decodedFingerPrintToken ''threeDSMethodNotificationURL'');
                 notificationURLOrigin = getOrigin imp receivedNotificationURL
             in Inr \<lparr>FingerPrintData.threeDSServerTransID =
                       property_of decodedFingerPrintToken ''threeDSServerTransID'',
                     threeDSMethodURL = property_of decodedFingerPrintToken ''threeDSMethodUrl'',
                     threeDSMethodNotificationURL = receivedNotificationURL,
                     FingerPrintData.postMessageDomain = notificationURLOrigin\<rparr>))"

text \<open>
  \<^verbatim>\<open>
  export const handleErrorCode = (errorCode: string): ErrorObject => {
      const unknownMessage = ERROR_MESSAGES[ERRORS.UNKNOWN];
      const message = ERROR_MESSAGES[errorCode] || unknownMessage;
      return { errorCode, message };
  };
  \<close>
\<close>

definition handleErrorCode :: "imported \<Rightarrow> string \<Rightarrow> ErrorObject" where
  "handleErrorCode imp errorCode' =
     (let unknownMessage = get_property (ERROR_MESSAGES imp) (ERRORS_UNKNOWN imp);
          message' = or_else (get_property (ERROR_MESSAGES imp) errorCode') unknownMessage
      in \<lparr>errorCode = errorCode', message = message'\<rparr>)"

section \<open>The imported helpers and constants, as the specification describes them\<close>

text \<open>
  Modelled from the spec: \<^verbatim>\<open>base64.decode\<close> of \<^verbatim>\<open>utils/base64\<close>, which is not among
  the sources. The specification says that the token is base64-decoded, that decoding can
  fail, and that the decoder may yield ``an empty/undefined result''. It does not say how
  the helper reports a text that is not base64, so that outcome is the parameter
  \<open>on_failure\<close>. \<^verbatim>\<open>base64.encode\<close> is \<open>b64_encode\<close>.
\<close>

definition spec_base64_decode :: "decoded \<Rightarrow> string \<Rightarrow> decoded" where
  "spec_base64_decode on_failure t =
     (case b64_decode t of Some s \<Rightarrow> Text s | None \<Rightarrow> on_failure)"

text \<open>
  Modelled from the spec: \<^verbatim>\<open>getOrigin\<close> of \<^verbatim>\<open>utils/getOrigin\<close>, which is not among
  the sources: ``the origin (scheme+host+port) of the resolved notification URL''. A URL is
  a scheme, \<^verbatim>\<open>://\<close> and an authority, followed by a path, a query or a fragment; the
  authority is a host, with userinfo and \<^verbatim>\<open>@\<close> before it or a \<^verbatim>\<open>:\<close> and a port
  after it. The origin is the scheme, \<^verbatim>\<open>://\<close>, the host, and \<^verbatim>\<open>:\<close> and the port
  when there is one. A value that is not a string, or a string that is not such a URL,
  has no origin (\<^verbatim>\<open>null\<close>).
\<close>

definition is_letter :: "16 word \<Rightarrow> bool" where
  "is_letter u = ((65 \<le> unat u \<and> unat u \<le> 90) \<or> (97 \<le> unat u \<and> unat u \<le> 122))"

definition is_decimal :: "16 word \<Rightarrow> bool" where
  "is_decimal u = (48 \<le> unat u \<and> unat u \<le> 57)"

definition is_scheme_unit :: "16 word \<Rightarrow> bool" where
  "is_scheme_unit u =
     (is_letter u \<or> is_decimal u \<or> u = code_unit (CHR ''+'') \<or> u = code_unit (CHR ''-'')
      \<or> u = code_unit (CHR ''.''))"

definition is_host_unit :: "16 word \<Rightarrow> bool" where
  "is_host_unit u =
     (is_letter u \<or> is_decimal u \<or> u = code_unit (CHR ''-'') \<or> u = code_unit (CHR ''.''))"

definition url_scheme :: "16 word list \<Rightarrow> 16 word list" where
  "url_scheme url = takeWhile (\<lambda>u. u \<noteq> code_unit (CHR '':'')) url"

definition url_after_scheme :: "16 word list \<Rightarrow> 16 word list" where
  "url_after_scheme url = dropWhile (\<lambda>u. u \<noteq> code_unit (CHR '':'')) url"

text \<open>The authority ends at the first \<^verbatim>\<open>/\<close>, \<^verbatim>\<open>?\<close> or \<^verbatim>\<open>#\<close>.\<close>

definition url_authority :: "16 word list \<Rightarrow> 16 word list" where
  "url_authority url =
     takeWhile
       (\<lambda>u. u \<noteq> code_unit (CHR ''/'') \<and> u \<noteq> code_unit (CHR ''?'') \<and> u \<noteq> code_unit (CHR ''#''))
       (drop 3 (url_after_scheme url))"

text \<open>Host and port stand after the last \<^verbatim>\<open>@\<close> of the authority; what is before is userinfo.\<close>

definition url_hostport :: "16 word list \<Rightarrow> 16 word list" where
  "url_hostport url = rev (takeWhile (\<lambda>u. u \<noteq> code_unit (CHR ''@'')) (rev (url_authority url)))"

definition url_host :: "16 word list \<Rightarrow> 16 word list" where
  "url_host url = takeWhile (\<lambda>u. u \<noteq> code_unit (CHR '':'')) (url_hostport url)"

definition url_port :: "16 word list \<Rightarrow> 16 word list" where
  "url_port url = drop 1 (dropWhile (\<lambda>u. u \<noteq> code_unit (CHR '':'')) (url_hostport url))"

definition valid_scheme :: "16 word list \<Rightarrow> bool" where
  "valid_scheme sc = (case sc of [] \<Rightarrow> False | u # us \<Rightarrow> is_letter u \<and> list_all is_scheme_unit us)"

fun spec_getOrigin :: "jsval \<Rightarrow> jsval" where
  "spec_getOrigin (JStr url) =
     (if valid_scheme (url_scheme url) \<and> take 3 (url_after_scheme url) = wide ''://''
         \<and> url_host url \<noteq> [] \<and> list_all is_host_unit (url_host url)
         \<and> list_all is_decimal (url_port url)
      then JStr (url_scheme url @ wide ''://'' @ url_host url @
                 (if url_port url = [] then [] else code_unit (CHR '':'') # url_port url))
      else Null)"
| "spec_getOrigin _ = Null"

text \<open>
  Modelled from the spec: the constants of \<^verbatim>\<open>../config\<close>, which is not among the
  sources: ``a fixed mapping of five string codes ("01"--"05") to [width,height] pixel
  pairs, plus one designated default code'', and ``a fixed message table'' with an
  ``unknown error'' message. The specification gives neither the pixel pairs, nor which
  code is the default, nor the messages: the values below are an instance.
\<close>

definition helpers :: "decoded \<Rightarrow> imported" where
  "helpers on_failure =
     \<lparr>ERROR_MESSAGES =
        [(''timeout'', Str ''ThreeDS2 timed out''),
         (''wrongOrigin'', Str ''Result came in the right format but not from the expected origin''),
         (''unknownError'', Str ''An unknown error occurred'')],
      ERRORS_UNKNOWN = ''unknownError'',
      CHALLENGE_WINDOW_SIZES =
        [(''01'', Arr [Str ''250px'', Str ''400px'']),
         (''02'', Arr [Str ''390px'', Str ''400px'']),
         (''03'', Arr [Str ''500px'', Str ''600px'']),
         (''04'', Arr [Str ''600px'', Str ''400px'']),
         (''05'', Arr [Str ''100%'', Str ''100%''])],
      DEFAULT_CHALLENGE_WINDOW_SIZE = ''02'',
      getOrigin = spec_getOrigin,
      base64_decode = spec_base64_decode on_failure,
      base64_encode = b64_encode\<rparr>"

text \<open>Two example tokens, as JSON texts; a token is the base64 encoding of its text.\<close>

definition challenge_token_text :: string where
  \<open>challenge_token_text = ''{"acsTransID":"t-1","acsURL":"https://acs.example/c","messageVersion":"2.1.0","threeDSNotificationURL":"https://merchant.example/notify","threeDSServerTransID":"abc"}''\<close>

definition fingerprint_token_text :: string where
  \<open>fingerprint_token_text = ''{"threeDSServerTransID":"abc","threeDSMethodUrl":"https://acs.example/m","threeDSMethodNotificationURL":"https://merchant.example/notify"}''\<close>

text \<open>
  Two JSON texts with escapes above \<^verbatim>\<open>\u00FF\<close>: the euro sign as the value of
  \<^verbatim>\<open>acsURL\<close>, and a surrogate pair in an array.
\<close>

definition wide_escape_text :: string where
  \<open>wide_escape_text = ''{"acsURL":"'' @ CHR 0x5C # ''u20ac"}''\<close>

definition surrogate_pair_text :: string where
  \<open>surrogate_pair_text = ''["'' @ CHR 0x5C # ''ud83d'' @ CHR 0x5C # ''uDE00"]''\<close>

section \<open>Texts as string values\<close>

text \<open>The embedding of texts into string values loses nothing.\<close>

lemma unat_code_unit: "unat (code_unit c) = of_char c"
proof -
  have "(of_char c :: nat) < 65536"
    by (rule less_trans[OF nat_of_char_less_256]) simp
  then show ?thesis
    unfolding code_unit_def by (simp add: unat_of_nat take_bit_eq_mod)
qed

lemma code_unit_eq_iff [simp]: "(code_unit c = code_unit d) = (c = d)"
  by (metis unat_code_unit of_char_eq_iff)

lemma wide_eq_iff [simp]: "(wide s = wide t) = (s = t)"
  unfolding wide_def by (simp add: inj_map_eq_map inj_on_def)

lemma wide_Nil [simp]: "(wide s = []) = (s = [])"
  unfolding wide_def by simp

lemma Str_eq_iff [simp]: "(Str s = Str t) = (s = t)"
  unfolding Str_def by simp

lemma truthy_value_Str [simp]: "truthy_value (Str s) = (s \<noteq> [])"
  unfolding Str_def by simp

lemma nullish_Str [simp]: "\<not> nullish (Str s)"
  unfolding Str_def by simp

lemma not_nullish_Obj [simp]: "\<not> nullish (Obj ps)"
  unfolding Obj_def by simp

lemma map_of_wide: "map_of (map (\<lambda>(k, v). (wide k, v)) ps) (wide k) = map_of ps k"
  by (induction ps) auto

text \<open>Reading a property of an object whose keys are texts.\<close>

lemma property_of_Obj: "property_of (Obj ps) k = get_property ps k"
  unfolding Obj_def get_property_def by (simp add: map_of_wide)

section \<open>Round trips\<close>

subsection \<open>\<^verbatim>\<open>JSON.parse\<close> after \<^verbatim>\<open>JSON.stringify\<close>\<close>

lemma hex_value_digit: "k < 16 \<Longrightarrow> hex_value (hex_digit k) = Some k"
  unfolding hex_value_def hex_digit_def by (simp add: Let_def)

lemma hex_value_zero: "hex_value (CHR ''0'') = Some 0"
  unfolding hex_value_def by simp

lemma lex_escape_control:
  assumes "n < 32"
  shows "lex_escape (CHR ''u'' # CHR ''0'' # CHR ''0'' # hex_digit (n div 16) # hex_digit (n mod 16) # r)
         = Some (of_nat n, r)"
proof -
  have d: "n div 16 < 16" and m: "n mod 16 < 16" using assms by auto
  have "hex4 (CHR ''0'') (CHR ''0'') (hex_digit (n div 16)) (hex_digit (n mod 16)) = Some n"
    unfolding hex4_def by (simp add: hex_value_zero hex_value_digit[OF d] hex_value_digit[OF m])
  then show ?thesis unfolding lex_escape_def by simp
qed

lemma char_of_codes:
  "char_of (8::nat) = CHR 0x08" "char_of (9::nat) = CHR 0x09" "char_of (10::nat) = CHR 0x0A"
  "char_of (12::nat) = CHR 0x0C" "char_of (13::nat) = CHR 0x0D" "char_of (34::nat) = CHR 0x22"
  "char_of (92::nat) = CHR 0x5C"
  by (simp_all add: char_of_eq_iff take_bit_eq_mod)

lemma lex_string_quote_char:
  "lex_string (quote_char c @ r) = map_option (apfst ((#) (code_unit c))) (lex_string r)"
proof -
  define n where "n = (of_char c :: nat)"
  have c: "c = char_of n" by (simp add: n_def)
  consider "n = 8" | "n = 9" | "n = 10" | "n = 12" | "n = 13" | "n = 34" | "n = 92"
    | "n < 32" "n \<notin> {8, 9, 10, 12, 13}" | "32 \<le> n" "n \<noteq> 34" "n \<noteq> 92"
    by force
  then show ?thesis
  proof cases
    case 8
    then have "lex_string (quote_char c @ r) = lex_string (CHR 0x5C # CHR ''u'' # CHR ''0'' # CHR ''0'' # hex_digit (n div 16) # hex_digit (n mod 16) # r)"
      unfolding quote_char_def n_def[symmetric] by (simp add: Let_def)
    also have "\<dots> = map_option (apfst ((#) (of_nat n))) (lex_string r)"
      using lex_escape_control[OF 8(1)] by simp
    finally show ?thesis by (simp add: code_unit_def n_def)
  next
    case 9
    then have ne: "c \<noteq> CHR 0x22" "c \<noteq> CHR 0x5C" "\<not> (of_char c :: nat) < 32"
      unfolding n_def by auto
    from 9 have "quote_char c = [c]"
      unfolding quote_char_def n_def[symmetric] by (simp add: Let_def)
    with ne show ?thesis by simp
  qed (simp_all add: c quote_char_def lex_escape_def unescape_def char_of_codes)
qed

lemma lex_string_quoted:
  "lex_string (concat (map quote_char s) @ CHR 0x22 # r) = Some (wide s, r)"
  by (induction s) (simp_all add: lex_string_quote_char wide_def)

lemma lex_QuoteJSONString:
  "lex (QuoteJSONString s @ r) = map_option ((#) (STRING (wide s))) (lex r)"
  unfolding QuoteJSONString_def
  by (simp add: is_ws_def next_token_def punctuation_def lex_string_quoted)

lemma lex_member:
  "lex (JSON_stringify [(k, Some v)]) =
     Some [LBRACE, STRING (wide k), COLON, STRING (wide v), RBRACE]"
  unfolding JSON_stringify_def
  by (simp add: lex_QuoteJSONString is_ws_def next_token_def punctuation_def)

lemma JSON_parse_stringify_member:
  "JSON_parse (JSON_stringify [(k, Some v)]) = Some (Obj [(k, Str v)])"
  unfolding JSON_parse_def by (simp add: lex_member step_def after_value_def Obj_def Str_def)

lemma JSON_parse_stringify_undefined:
  "JSON_parse (JSON_stringify [(k, None)]) = Some (Obj [])"
  unfolding JSON_parse_def JSON_stringify_def
  by (simp add: is_ws_def next_token_def punctuation_def step_def Obj_def)

lemma JSON_stringify_nonempty: "JSON_stringify ps \<noteq> []"
  unfolding JSON_stringify_def by simp

subsection \<open>Base64 decoding after encoding\<close>

lemma b64_value_char: "n < 64 \<Longrightarrow> b64_value (b64_char n) = Some n"
  unfolding b64_value_def b64_char_def by (auto simp: Let_def)

lemma b64_char_not_pad: "n < 64 \<Longrightarrow> b64_char n \<noteq> CHR ''=''"
proof
  assume n: "n < 64" and "b64_char n = CHR ''=''"
  then have "b64_value (b64_char n) = b64_value (CHR ''='')" by simp
  with b64_value_char[OF n] show False by (simp add: b64_value_def)
qed

lemma b64_group_encoded:
  assumes "a < 256" "b < 256" "c < 256"
  shows "b64_group (b64_char (a div 4)) (b64_char ((a mod 4) * 16 + b div 16))
           (b64_char ((b mod 16) * 4 + c div 64)) (b64_char (c mod 64)) = Some [a, b, c]"
proof -
  have s: "a div 4 < 64" "(a mod 4) * 16 + b div 16 < 64" "(b mod 16) * 4 + c div 64 < 64"
    "c mod 64 < 64"
    using assms by auto
  have "(a div 4) * 4 + ((a mod 4) * 16 + b div 16) div 16 = a"
    "(((a mod 4) * 16 + b div 16) mod 16) * 16 + ((b mod 16) * 4 + c div 64) div 4 = b"
    "(((b mod 16) * 4 + c div 64) mod 4) * 64 + c mod 64 = c"
    using assms by (simp_all add: div_mult2_eq)
  then show ?thesis
    unfolding b64_group_def by (simp add: b64_value_char s)
qed

lemma b64_last_group_two:
  assumes "a < 256" "b < 256"
  shows "b64_last_group (b64_char (a div 4)) (b64_char ((a mod 4) * 16 + b div 16))
           (b64_char ((b mod 16) * 4)) (CHR ''='') = Some [a, b]"
proof -
  have s: "a div 4 < 64" "(a mod 4) * 16 + b div 16 < 64" "(b mod 16) * 4 < 64"
    using assms by auto
  have "(a div 4) * 4 + ((a mod 4) * 16 + b div 16) div 16 = a"
    "(((a mod 4) * 16 + b div 16) mod 16) * 16 + ((b mod 16) * 4) div 4 = b"
    using assms by simp_all
  then show ?thesis
    unfolding b64_last_group_def by (simp add: b64_value_char b64_char_not_pad s)
qed

lemma b64_last_group_one:
  assumes "a < 256"
  shows "b64_last_group (b64_char (a div 4)) (b64_char ((a mod 4) * 16)) (CHR ''='') (CHR ''='')
         = Some [a]"
proof -
  have s: "a div 4 < 64" "(a mod 4) * 16 < 64"
    using assms by auto
  have "(a div 4) * 4 + ((a mod 4) * 16) div 16 = a"
    by simp
  then show ?thesis
    unfolding b64_last_group_def by (simp add: b64_value_char s)
qed

lemma b64_encode_bytes_Nil: "(b64_encode_bytes bs = []) = (bs = [])"
  by (cases bs rule: b64_encode_bytes.cases) simp_all

lemma b64_decode_encode_bytes:
  "list_all (\<lambda>b. b < 256) bs \<Longrightarrow> b64_decode_chars (b64_encode_bytes bs) = Some bs"
proof (induction bs rule: b64_encode_bytes.induct)
  case 1
  show ?case by simp
next
  case (2 a)
  then show ?case by (simp add: b64_last_group_one)
next
  case (3 a b)
  then show ?case by (simp add: b64_last_group_two)
next
  case (4 a b c r)
  then have lt: "a < 256" "b < 256" "c < 256" and IH: "b64_decode_chars (b64_encode_bytes r) = Some r"
    by simp_all
  have "c mod 64 < 64" by simp
  then have "b64_char (c mod 64) \<noteq> CHR ''=''" by (rule b64_char_not_pad)
  then show ?case
    using b64_group_encoded[OF lt] IH
    by (simp add: b64_last_group_def b64_encode_bytes_Nil)
qed

lemma b64_decode_encode: "b64_decode (b64_encode s) = Some s"
proof -
  have "list_all (\<lambda>b. b < 256) (map of_char s :: nat list)"
    by (simp add: list_all_iff)
  then show ?thesis
    unfolding b64_decode_def b64_encode_def
    by (simp add: b64_decode_encode_bytes comp_def)
qed

subsection \<open>Decoding an encoded result\<close>

lemma decodeAndParseToken_encoded:
  assumes "base64_decode imp (base64_encode imp (JSON_stringify [(k, Some v)])) =
             Text (JSON_stringify [(k, Some v)])"
  shows "decodeAndParseToken imp (base64_encode imp (JSON_stringify [(k, Some v)])) =
           Inr (Obj [(k, Str v)])"
  unfolding decodeAndParseToken_def
  by (simp add: assms JSON_stringify_nonempty JSON_parse_stringify_member)

text \<open>
  When the selected field is absent and the other one is truthy, the payload is the
  encoding of the empty object.
\<close>

lemma encodeResult_unselected:
  "threeDSCompInd result = None \<Longrightarrow> truthy (transStatus result) \<Longrightarrow>
   encodeResult imp result ''IdentifyShopper'' = Inr (base64_encode imp ''{}'')"
  "transStatus result = None \<Longrightarrow> truthy (threeDSCompInd result) \<Longrightarrow>
   encodeResult imp result ''ChallengeShopper'' = Inr (base64_encode imp ''{}'')"
  unfolding encodeResult_def JSON_stringify_def by simp_all

lemma spec_base64_decode_encode: "spec_base64_decode f (b64_encode s) = Text s"
  unfolding spec_base64_decode_def by (simp add: b64_decode_encode)

lemma helpers_codec:
  "base64_decode (helpers f) (base64_encode (helpers f) s) = Text s"
  unfolding helpers_def by (simp add: spec_base64_decode_encode)

lemma get_property_own:
  "hasOwnProperty obj k \<Longrightarrow> map_of obj k = Some (get_property obj k)"
  unfolding hasOwnProperty_def get_property_def
  by (cases "map_of obj k") (auto simp: map_of_eq_None_iff)

lemma validateChallengeWindowSize_own:
  "hasOwnProperty (CHALLENGE_WINDOW_SIZES imp) (DEFAULT_CHALLENGE_WINDOW_SIZE imp) \<Longrightarrow>
   hasOwnProperty (CHALLENGE_WINDOW_SIZES imp) (validateChallengeWindowSize imp sizeStr)"
  unfolding validateChallengeWindowSize_def by (simp add: Let_def)

section \<open>Example tokens\<close>

text \<open>
  Evaluating the decoder on two example tokens: the texts are parsed once, and a token is
  the base64 encoding of its text.
\<close>

lemma challenge_token_parsed:
  "JSON_parse challenge_token_text =
     Some (Obj [(''acsTransID'', Str ''t-1''), (''acsURL'', Str ''https://acs.example/c''),
                (''messageVersion'', Str ''2.1.0''),
                (''threeDSNotificationURL'', Str ''https://merchant.example/notify''),
                (''threeDSServerTransID'', Str ''abc'')])"
  by code_simp

lemma fingerprint_token_parsed:
  "JSON_parse fingerprint_token_text =
     Some (Obj [(''threeDSServerTransID'', Str ''abc''),
                (''threeDSMethodUrl'', Str ''https://acs.example/m''),
                (''threeDSMethodNotificationURL'', Str ''https://merchant.example/notify'')])"
  by code_simp

lemma decodeAndParseToken_b64_encode:
  "text \<noteq> [] \<Longrightarrow> JSON_parse text = Some v \<Longrightarrow>
   decodeAndParseToken (helpers f) (b64_encode text) = Inr v"
  unfolding decodeAndParseToken_def helpers_def by (simp add: spec_base64_decode_encode)

lemma challenge_token_decoded:
  "decodeAndParseToken (helpers f) (b64_encode challenge_token_text) =
     Inr (Obj [(''acsTransID'', Str ''t-1''), (''acsURL'', Str ''https://acs.example/c''),
               (''messageVersion'', Str ''2.1.0''),
               (''threeDSNotificationURL'', Str ''https://merchant.example/notify''),
               (''threeDSServerTransID'', Str ''abc'')])"
  by (rule decodeAndParseToken_b64_encode[OF _ challenge_token_parsed])
     (simp add: challenge_token_text_def)

lemma fingerprint_token_decoded:
  "decodeAndParseToken (helpers f) (b64_encode fingerprint_token_text) =
     Inr (Obj [(''threeDSServerTransID'', Str ''abc''),
               (''threeDSMethodUrl'', Str ''https://acs.example/m''),
               (''threeDSMethodNotificationURL'', Str ''https://merchant.example/notify'')])"
  by (rule decodeAndParseToken_b64_encode[OF _ fingerprint_token_parsed])
     (simp add: fingerprint_token_text_def)

lemma origin_examples:
  "spec_getOrigin (Str ''https://merchant.example/notify'') = Str ''https://merchant.example''"
  "spec_getOrigin (Str ''https://shop.example:8443/3ds?x=1'') = Str ''https://shop.example:8443''"
  "spec_getOrigin (Str ''https://user:pw@shop.example/3ds'') = Str ''https://shop.example''"
  "spec_getOrigin (Str ''see https://shop.example'') = Null"
  "spec_getOrigin (Str ''https://'') = Null"
  "spec_getOrigin Undefined = Null"
  by code_simp+

text \<open>
  An escape \<^verbatim>\<open>\uXXXX\<close> denotes its code unit, whatever its value, a
  surrogate too.
\<close>

lemma wide_escape_parsed:
  "JSON_parse wide_escape_text = Some (JObj [(wide ''acsURL'', JStr [0x20AC])])"
  unfolding wide_escape_text_def JSON_parse_def
  by (simp add: is_ws_def next_token_def punctuation_def lex_escape_def hex4_def hex_value_def
        unescape_def step_def after_value_def wide_def)

lemma surrogate_pair_parsed:
  "JSON_parse surrogate_pair_text = Some (Arr [JStr [0xD83D, 0xDE00]])"
  unfolding surrogate_pair_text_def JSON_parse_def
  by (simp add: is_ws_def next_token_def punctuation_def lex_escape_def hex4_def hex_value_def
        unescape_def step_def after_value_def)

lemma wide_escape_token: "b64_encode wide_escape_text = ''eyJhY3NVUkwiOiJcdTIwYWMifQ==''"
  by code_simp

lemma b64_decode_abc: "b64_decode ''YWJj'' = Some ''abc''"
  by code_simp

lemma JSON_parse_abc: "JSON_parse ''abc'' = None"
  by code_simp

section \<open>The token codec\<close>

text \<open>
  C5, as stated, fails. The token \<^verbatim>\<open>!\<close> is not base64. Whether \<^verbatim>\<open>base64.decode\<close>
  reports that by a falsy value or by an exception, \<^verbatim>\<open>decodeAndParseToken\<close> does not
  throw its ``Could not decode token'' error: it returns the falsy value, or lets the
  helper's exception through, since the call stands outside the \<^verbatim>\<open>try\<close> block.
\<close>

theorem decodeAndParseToken_undecodable_counterexample:
  "b64_decode ''!'' = None \<and>
   decodeAndParseToken (helpers (Nothing Falsy_false)) ''!'' = Inr (Bool False) \<and>
   decodeAndParseToken (helpers (Nothing Falsy_undefined)) ''!'' = Inr Undefined \<and>
   decodeAndParseToken (helpers (Throws ''not base64'')) ''!'' = Inl (Thrown_by_base64 ''not base64'')"
  by (simp add: decodeAndParseToken_def helpers_def spec_base64_decode_def b64_decode_def)

text \<open>
  C5, amended. \<^verbatim>\<open>decodeAndParseToken\<close> throws its ``Could not decode token'' error
  exactly when \<^verbatim>\<open>base64.decode\<close> returns a non-empty text that is not valid JSON. A
  non-empty text that is valid JSON is returned parsed. A falsy result of
  \<^verbatim>\<open>base64.decode\<close> (the empty string, or a falsy value that is not text) is returned as
  it is, without throwing. An exception of \<^verbatim>\<open>base64.decode\<close> passes through unchanged.
\<close>

theorem decodeAndParseToken_outcomes:
  "((decodeAndParseToken imp token = Inl Could_not_decode_token) =
      (\<exists>text. base64_decode imp token = Text text \<and> text \<noteq> [] \<and> JSON_parse text = None)) \<and>
   (\<forall>text v. base64_decode imp token = Text text \<and> text \<noteq> [] \<and> JSON_parse text = Some v \<longrightarrow>
      decodeAndParseToken imp token = Inr v) \<and>
   (base64_decode imp token = Text [] \<longrightarrow> decodeAndParseToken imp token = Inr (Str [])) \<and>
   (\<forall>f. base64_decode imp token = Nothing f \<longrightarrow>
      decodeAndParseToken imp token = Inr (falsy_value f)) \<and>
   (\<forall>e. base64_decode imp token = Throws e \<longrightarrow>
      decodeAndParseToken imp token = Inl (Thrown_by_base64 e))"
  unfolding decodeAndParseToken_def
  by (cases "base64_decode imp token") (auto split: option.splits)

theorem decodeAndParseToken_outcomes_witness:
  "decodeAndParseToken (helpers (Nothing Falsy_false)) ''YWJj'' = Inl Could_not_decode_token \<and>
   decodeAndParseToken (helpers (Nothing Falsy_false)) (b64_encode challenge_token_text) =
     Inr (Obj [(''acsTransID'', Str ''t-1''), (''acsURL'', Str ''https://acs.example/c''),
               (''messageVersion'', Str ''2.1.0''),
               (''threeDSNotificationURL'', Str ''https://merchant.example/notify''),
               (''threeDSServerTransID'', Str ''abc'')]) \<and>
   decodeAndParseToken (helpers (Nothing Falsy_false)) [] = Inr (Str []) \<and>
   decodeAndParseToken (helpers (Nothing Falsy_false)) ''!'' = Inr (Bool False) \<and>
   decodeAndParseToken (helpers (Throws ''not base64'')) ''!'' = Inl (Thrown_by_base64 ''not base64'')"
proof -
  have d: "base64_decode (helpers f) ''YWJj'' = Text ''abc''"
    "base64_decode (helpers f) [] = Text []"
    "base64_decode (helpers f) ''!'' = f"
    "base64_decode (helpers f) (b64_encode challenge_token_text) = Text challenge_token_text" for f
    by (simp_all add: helpers_def spec_base64_decode_def b64_decode_abc b64_decode_encode)
       (simp_all add: b64_decode_def)
  have t: "challenge_token_text \<noteq> []"
    by (simp add: challenge_token_text_def)
  show ?thesis
    using decodeAndParseToken_outcomes[of "helpers (Nothing Falsy_false)" "''YWJj''"]
      decodeAndParseToken_outcomes[of "helpers (Nothing Falsy_false)"
        "b64_encode challenge_token_text"]
      decodeAndParseToken_outcomes[of "helpers (Nothing Falsy_false)" "[]"]
      decodeAndParseToken_outcomes[of "helpers (Nothing Falsy_false)" "''!''"]
      decodeAndParseToken_outcomes[of "helpers (Throws ''not base64'')" "''!''"]
    by (simp add: d t JSON_parse_abc challenge_token_parsed)
qed

section \<open>The result encoder\<close>

text \<open>
  C1. Round trip of \<^verbatim>\<open>encodeResult\<close>. Let the base64 helper be a codec: decoding what
  it encoded yields the text back. For every result object in which the field selected for
  the flow type (\<^verbatim>\<open>threeDSCompInd\<close> for \<^verbatim>\<open>IdentifyShopper\<close>, \<^verbatim>\<open>transStatus\<close> for
  \<^verbatim>\<open>ChallengeShopper\<close>) is present and truthy, \<^verbatim>\<open>encodeResult\<close> returns a payload;
  base64-decoding the payload and parsing the text as JSON, which is what
  \<^verbatim>\<open>decodeAndParseToken\<close> does, yields the object with exactly the selected field and
  its original value. The field that was not selected is not in it.
\<close>

theorem encodeResult_roundtrip:
  assumes codec: "\<And>s. base64_decode imp (base64_encode imp s) = Text s"
    and selected:
      "(type = ''IdentifyShopper'' \<and> k = ''threeDSCompInd'' \<and> threeDSCompInd result = Some v) \<or>
       (type = ''ChallengeShopper'' \<and> k = ''transStatus'' \<and> transStatus result = Some v)"
    and truthy: "v \<noteq> []"
  shows "\<exists>payload text.
           encodeResult imp result type = Inr payload \<and>
           base64_decode imp payload = Text text \<and>
           JSON_parse text = Some (Obj [(k, Str v)]) \<and>
           decodeAndParseToken imp payload = Inr (Obj [(k, Str v)])"
proof -
  let ?text = "JSON_stringify [(k, Some v)]"
  let ?payload = "base64_encode imp ?text"
  from selected truthy have "encodeResult imp result type = Inr ?payload"
    unfolding encodeResult_def truthy_def by auto
  moreover have "base64_decode imp ?payload = Text ?text"
    by (rule codec)
  moreover have "JSON_parse ?text = Some (Obj [(k, Str v)])"
    by (rule JSON_parse_stringify_member)
  moreover have "decodeAndParseToken imp ?payload = Inr (Obj [(k, Str v)])"
    by (rule decodeAndParseToken_encoded) (rule codec)
  ultimately show ?thesis by blast
qed

theorem encodeResult_roundtrip_witness:
  "\<exists>payload text.
     encodeResult (helpers (Nothing Falsy_undefined))
       \<lparr>threeDSCompInd = Some ''Y'', transStatus = Some ''N''\<rparr> ''IdentifyShopper'' = Inr payload \<and>
     base64_decode (helpers (Nothing Falsy_undefined)) payload = Text text \<and>
     JSON_parse text = Some (Obj [(''threeDSCompInd'', Str ''Y'')]) \<and>
     decodeAndParseToken (helpers (Nothing Falsy_undefined)) payload =
       Inr (Obj [(''threeDSCompInd'', Str ''Y'')])"
  by (rule encodeResult_roundtrip) (simp_all add: helpers_codec)

text \<open>
  C4, as stated, fails where a field is present and falsy. A result that carries an empty
  \<^verbatim>\<open>transStatus\<close> and no \<^verbatim>\<open>threeDSCompInd\<close> is rejected for \<^verbatim>\<open>ChallengeShopper\<close>;
  and with both fields present and empty, an unknown flow type gets the ``No threeDS2
  request details found'' error, not the ``No data available'' one.
\<close>

theorem encodeResult_present_counterexample:
  "encodeResult (helpers (Nothing Falsy_undefined))
     \<lparr>threeDSCompInd = None, transStatus = Some []\<rparr> ''ChallengeShopper'' =
   Inl No_threeDS2_request_details_found \<and>
   encodeResult (helpers (Nothing Falsy_undefined))
     \<lparr>threeDSCompInd = Some [], transStatus = Some []\<rparr> ''SomethingElse'' =
   Inl No_threeDS2_request_details_found \<and>
   encodeResult (helpers (Nothing Falsy_undefined))
     \<lparr>threeDSCompInd = Some [], transStatus = Some []\<rparr> ''SomethingElse'' \<noteq>
   Inl No_data_available_to_create_a_result"
  by (simp add: encodeResult_def truthy_def)

text \<open>
  C4, amended. Let the base64 helper be a codec. \<^verbatim>\<open>encodeResult\<close> throws when both
  \<^verbatim>\<open>threeDSCompInd\<close> and \<^verbatim>\<open>transStatus\<close> are absent, for any flow type. For a result
  that carries \<^verbatim>\<open>transStatus\<close> and in which at least one of the two fields is truthy, it
  succeeds for \<^verbatim>\<open>ChallengeShopper\<close> and its output decodes to exactly the object with
  that \<^verbatim>\<open>transStatus\<close>. For a result in which at least one of the two fields is truthy
  and a flow type other than \<^verbatim>\<open>IdentifyShopper\<close> and \<^verbatim>\<open>ChallengeShopper\<close>, it
  throws the ``No data available'' error.
\<close>

theorem encodeResult_errors:
  assumes codec: "\<And>s. base64_decode imp (base64_encode imp s) = Text s"
  shows "(threeDSCompInd result = None \<and> transStatus result = None \<longrightarrow>
            encodeResult imp result type = Inl No_threeDS2_request_details_found) \<and>
         (transStatus result = Some v \<and> (truthy (threeDSCompInd result) \<or> v \<noteq> []) \<longrightarrow>
            (\<exists>payload. encodeResult imp result ''ChallengeShopper'' = Inr payload \<and>
               decodeAndParseToken imp payload = Inr (Obj [(''transStatus'', Str v)]))) \<and>
         ((truthy (threeDSCompInd result) \<or> truthy (transStatus result)) \<and>
            type \<noteq> ''IdentifyShopper'' \<and> type \<noteq> ''ChallengeShopper'' \<longrightarrow>
            encodeResult imp result type = Inl No_data_available_to_create_a_result)"
proof (intro conjI impI)
  assume "threeDSCompInd result = None \<and> transStatus result = None"
  then show "encodeResult imp result type = Inl No_threeDS2_request_details_found"
    unfolding encodeResult_def truthy_def by simp
next
  assume a: "transStatus result = Some v \<and> (truthy (threeDSCompInd result) \<or> v \<noteq> [])"
  let ?payload = "base64_encode imp (JSON_stringify [(''transStatus'', Some v)])"
  from a have "encodeResult imp result ''ChallengeShopper'' = Inr ?payload"
    unfolding encodeResult_def truthy_def by auto
  moreover have "decodeAndParseToken imp ?payload = Inr (Obj [(''transStatus'', Str v)])"
    by (rule decodeAndParseToken_encoded) (rule codec)
  ultimately show "\<exists>payload. encodeResult imp result ''ChallengeShopper'' = Inr payload \<and>
      decodeAndParseToken imp payload = Inr (Obj [(''transStatus'', Str v)])"
    by blast
next
  assume "(truthy (threeDSCompInd result) \<or> truthy (transStatus result)) \<and>
    type \<noteq> ''IdentifyShopper'' \<and> type \<noteq> ''ChallengeShopper''"
  then show "encodeResult imp result type = Inl No_data_available_to_create_a_result"
    unfolding encodeResult_def by auto
qed

theorem encodeResult_errors_witness:
  "encodeResult (helpers (Nothing Falsy_undefined))
     \<lparr>threeDSCompInd = None, transStatus = None\<rparr> ''IdentifyShopper'' =
   Inl No_threeDS2_request_details_found \<and>
   (\<exists>payload.
      encodeResult (helpers (Nothing Falsy_undefined))
        \<lparr>threeDSCompInd = None, transStatus = Some ''Y''\<rparr> ''ChallengeShopper'' = Inr payload \<and>
      decodeAndParseToken (helpers (Nothing Falsy_undefined)) payload =
        Inr (Obj [(''transStatus'', Str ''Y'')])) \<and>
   encodeResult (helpers (Nothing Falsy_undefined))
     \<lparr>threeDSCompInd = Some ''Y'', transStatus = Some ''N''\<rparr> ''SomethingElse'' =
   Inl No_data_available_to_create_a_result"
proof -
  note e = encodeResult_errors[where imp = "helpers (Nothing Falsy_undefined)", OF helpers_codec]
  show ?thesis
    using e[where result = "\<lparr>threeDSCompInd = None, transStatus = None\<rparr>"
          and type = "''IdentifyShopper''"]
      e[where result = "\<lparr>threeDSCompInd = None, transStatus = Some ''Y''\<rparr>" and v = "''Y''"]
      e[where result = "\<lparr>threeDSCompInd = Some ''Y'', transStatus = Some ''N''\<rparr>"
          and type = "''SomethingElse''"]
    by (simp add: truthy_def)
qed

text \<open>
  C9. \<^verbatim>\<open>encodeResult\<close> rejects by truthiness, not by presence: for every result object
  in which both \<^verbatim>\<open>threeDSCompInd\<close> and \<^verbatim>\<open>transStatus\<close> are present and falsy (both the
  empty string), it throws the ``No threeDS2 request details found'' error, for every flow
  type.
\<close>

theorem encodeResult_rejects_falsy:
  assumes "threeDSCompInd result \<noteq> None" and "transStatus result \<noteq> None"
    and "\<not> truthy (threeDSCompInd result)" and "\<not> truthy (transStatus result)"
  shows "encodeResult imp result type = Inl No_threeDS2_request_details_found"
  using assms unfolding encodeResult_def by simp

theorem encodeResult_rejects_falsy_witness:
  "encodeResult (helpers (Nothing Falsy_undefined))
     \<lparr>threeDSCompInd = Some [], transStatus = Some []\<rparr> ''ChallengeShopper'' =
   Inl No_threeDS2_request_details_found \<and>
   encodeResult (helpers (Nothing Falsy_undefined))
     \<lparr>threeDSCompInd = Some [], transStatus = Some []\<rparr> ''IdentifyShopper'' =
   Inl No_threeDS2_request_details_found"
  using encodeResult_rejects_falsy[of "\<lparr>threeDSCompInd = Some [], transStatus = Some []\<rparr>"
      "helpers (Nothing Falsy_undefined)" "''ChallengeShopper''"]
    encodeResult_rejects_falsy[of "\<lparr>threeDSCompInd = Some [], transStatus = Some []\<rparr>"
      "helpers (Nothing Falsy_undefined)" "''IdentifyShopper''"]
  by (simp add: truthy_def)

section \<open>The size of the challenge window\<close>

text \<open>
  C2. Window-size fallback. Let the size table have exactly the five codes \<^verbatim>\<open>01\<close> to
  \<^verbatim>\<open>05\<close>, the default being one of them. \<^verbatim>\<open>validateChallengeWindowSize\<close> pads a
  size of one character with \<^verbatim>\<open>0\<close> on the left, returns the padded size when it is one
  of the five codes and the default otherwise. So each of the five codes is returned
  unchanged, \<^verbatim>\<open>2\<close> yields \<^verbatim>\<open>02\<close>, \<^verbatim>\<open>9\<close> yields the default and never
  \<^verbatim>\<open>09\<close>, and the empty string yields the default.
\<close>

theorem validateChallengeWindowSize_fallback:
  assumes codes: "set (map fst (CHALLENGE_WINDOW_SIZES imp)) = {''01'', ''02'', ''03'', ''04'', ''05''}"
    and dflt: "DEFAULT_CHALLENGE_WINDOW_SIZE imp \<in> {''01'', ''02'', ''03'', ''04'', ''05''}"
  shows "validateChallengeWindowSize imp sizeStr =
           (if (if length sizeStr = 1 then CHR ''0'' # sizeStr else sizeStr)
                 \<in> {''01'', ''02'', ''03'', ''04'', ''05''}
            then (if length sizeStr = 1 then CHR ''0'' # sizeStr else sizeStr)
            else DEFAULT_CHALLENGE_WINDOW_SIZE imp) \<and>
         (sizeStr \<in> {''01'', ''02'', ''03'', ''04'', ''05''} \<longrightarrow>
            validateChallengeWindowSize imp sizeStr = sizeStr) \<and>
         validateChallengeWindowSize imp ''2'' = ''02'' \<and>
         validateChallengeWindowSize imp ''9'' = DEFAULT_CHALLENGE_WINDOW_SIZE imp \<and>
         validateChallengeWindowSize imp ''9'' \<noteq> ''09'' \<and>
         validateChallengeWindowSize imp [] = DEFAULT_CHALLENGE_WINDOW_SIZE imp"
proof -
  have v: "validateChallengeWindowSize imp s =
           (if (if length s = 1 then CHR ''0'' # s else s) \<in> {''01'', ''02'', ''03'', ''04'', ''05''}
            then (if length s = 1 then CHR ''0'' # s else s)
            else DEFAULT_CHALLENGE_WINDOW_SIZE imp)" for s
    unfolding validateChallengeWindowSize_def hasOwnProperty_def codes by (simp add: Let_def)
  have "validateChallengeWindowSize imp s = s" if "s \<in> {''01'', ''02'', ''03'', ''04'', ''05''}" for s
    using that unfolding v by auto
  moreover have "validateChallengeWindowSize imp ''2'' = ''02''"
    unfolding v by simp
  moreover have nine: "validateChallengeWindowSize imp ''9'' = DEFAULT_CHALLENGE_WINDOW_SIZE imp"
    unfolding v by simp
  moreover have "validateChallengeWindowSize imp ''9'' \<noteq> ''09''"
    unfolding nine using dflt by auto
  moreover have "validateChallengeWindowSize imp [] = DEFAULT_CHALLENGE_WINDOW_SIZE imp"
    unfolding v by simp
  ultimately show ?thesis using v by blast
qed

theorem validateChallengeWindowSize_fallback_witness:
  "validateChallengeWindowSize (helpers (Nothing Falsy_undefined)) ''garbage'' = ''02'' \<and>
   validateChallengeWindowSize (helpers (Nothing Falsy_undefined)) ''04'' = ''04'' \<and>
   validateChallengeWindowSize (helpers (Nothing Falsy_undefined)) ''2'' = ''02'' \<and>
   validateChallengeWindowSize (helpers (Nothing Falsy_undefined)) ''9'' = ''02'' \<and>
   validateChallengeWindowSize (helpers (Nothing Falsy_undefined)) ''9'' \<noteq> ''09'' \<and>
   validateChallengeWindowSize (helpers (Nothing Falsy_undefined)) [] = ''02''"
proof -
  have codes: "set (map fst (CHALLENGE_WINDOW_SIZES (helpers (Nothing Falsy_undefined)))) =
          {''01'', ''02'', ''03'', ''04'', ''05''}"
    and dflt: "DEFAULT_CHALLENGE_WINDOW_SIZE (helpers (Nothing Falsy_undefined))
          \<in> {''01'', ''02'', ''03'', ''04'', ''05''}"
    and d: "DEFAULT_CHALLENGE_WINDOW_SIZE (helpers (Nothing Falsy_undefined)) = ''02''"
    by (simp_all add: helpers_def)
  show ?thesis
    using validateChallengeWindowSize_fallback[OF codes dflt, of "''garbage''"]
      validateChallengeWindowSize_fallback[OF codes dflt, of "''04''"]
    by (simp add: d)
qed

section \<open>The challenge and fingerprint parameters\<close>

text \<open>
  What the two builders return for a token that \<^verbatim>\<open>decodeAndParseToken\<close> decodes to a
  value other than \<^verbatim>\<open>null\<close> and \<^verbatim>\<open>undefined\<close>.
\<close>

lemma prepareChallengeData_returns:
  assumes "decodeAndParseToken imp token = Inr tok" and "\<not> nullish tok"
  shows "prepareChallengeData imp token size' notificationURL =
     Inr \<lparr>acsURL = property_of tok ''acsURL'',
          cReqData =
            \<lparr>acsTransID = property_of tok ''acsTransID'',
             messageVersion = property_of tok ''messageVersion'',
             CReqData.threeDSServerTransID = property_of tok ''threeDSServerTransID'',
             messageType = ''CReq'',
             challengeWindowSize = validateChallengeWindowSize imp size'\<rparr>,
          iframeSizeArr = getChallengeWindowSize imp size',
          ChallengeData.postMessageDomain =
            getOrigin imp (or_else notificationURL (property_of tok ''threeDSNotificationURL''))\<rparr>"
  unfolding prepareChallengeData_def using assms by (simp add: Let_def)

lemma prepareFingerPrintData_returns:
  assumes "decodeAndParseToken imp token = Inr tok" and "\<not> nullish tok"
  shows "prepareFingerPrintData imp token notificationURL =
     Inr \<lparr>FingerPrintData.threeDSServerTransID = property_of tok ''threeDSServerTransID'',
          threeDSMethodURL = property_of tok ''threeDSMethodUrl'',
          threeDSMethodNotificationURL =
            or_else notificationURL (property_of tok ''threeDSMethodNotificationURL''),
          FingerPrintData.postMessageDomain =
            getOrigin imp (or_else notificationURL (property_of tok ''threeDSMethodNotificationURL''))\<rparr>"
  unfolding prepareFingerPrintData_def using assms by (simp add: Let_def)

lemma prepare_nullish:
  assumes "decodeAndParseToken imp token = Inr tok" and "nullish tok"
  shows "prepareChallengeData imp token size' notificationURL = Inl TypeError"
    and "prepareFingerPrintData imp token notificationURL = Inl TypeError"
  unfolding prepareChallengeData_def prepareFingerPrintData_def using assms by simp_all

text \<open>
  A token whose JSON text holds an escape above \<^verbatim>\<open>\u00FF\<close> is decoded, and
  \<^verbatim>\<open>prepareChallengeData\<close> copies the code unit into \<^verbatim>\<open>acsURL\<close>.
\<close>

lemma wide_escape_challenge:
  "\<exists>d. prepareChallengeData (helpers f) ''eyJhY3NVUkwiOiJcdTIwYWMifQ=='' ''02'' Undefined = Inr d \<and>
       acsURL d = JStr [0x20AC]"
proof -
  have "wide_escape_text \<noteq> []"
    by (simp add: wide_escape_text_def)
  then have "decodeAndParseToken (helpers f) (b64_encode wide_escape_text) =
      Inr (JObj [(wide ''acsURL'', JStr [0x20AC])])"
    using wide_escape_parsed by (rule decodeAndParseToken_b64_encode)
  then show ?thesis
    unfolding wide_escape_token
    by (simp add: prepareChallengeData_returns)
qed

text \<open>
  C3. Notification URL precedence. For every token that \<^verbatim>\<open>decodeAndParseToken\<close>
  decodes, and every \<^verbatim>\<open>notificationURL\<close> of the caller: the \<^verbatim>\<open>postMessageDomain\<close>
  that \<^verbatim>\<open>prepareChallengeData\<close> returns is the origin of the caller's
  \<^verbatim>\<open>notificationURL\<close> when one is provided (a truthy value: a non-empty string), and
  otherwise the origin of the token's \<^verbatim>\<open>threeDSNotificationURL\<close>; likewise for
  \<^verbatim>\<open>prepareFingerPrintData\<close> and the token's \<^verbatim>\<open>threeDSMethodNotificationURL\<close>. Both
  builders return, unless the token decodes to \<^verbatim>\<open>null\<close> or \<^verbatim>\<open>undefined\<close>, which
  cannot be destructured.
\<close>

theorem postMessageDomain_precedence:
  assumes "decodeAndParseToken imp token = Inr tok"
  shows "(if nullish tok
          then prepareChallengeData imp token size' notificationURL = Inl TypeError
          else (\<exists>d. prepareChallengeData imp token size' notificationURL = Inr d \<and>
                  ChallengeData.postMessageDomain d =
                    getOrigin imp (if truthy_value notificationURL then notificationURL
                                   else property_of tok ''threeDSNotificationURL''))) \<and>
         (if nullish tok
          then prepareFingerPrintData imp token notificationURL = Inl TypeError
          else (\<exists>f. prepareFingerPrintData imp token notificationURL = Inr f \<and>
                  FingerPrintData.postMessageDomain f =
                    getOrigin imp (if truthy_value notificationURL then notificationURL
                                   else property_of tok ''threeDSMethodNotificationURL'')))"
proof (cases "nullish tok")
  case True
  with prepare_nullish[OF assms] show ?thesis by simp
next
  case False
  with prepareChallengeData_returns[OF assms] prepareFingerPrintData_returns[OF assms]
  show ?thesis by (simp add: or_else_def)
qed

theorem postMessageDomain_precedence_witness:
  "(\<exists>d. prepareChallengeData (helpers (Nothing Falsy_undefined)) (b64_encode challenge_token_text)
          ''05'' (Str ''https://shop.example:8443/3ds?x=1'') = Inr d \<and>
        ChallengeData.postMessageDomain d = Str ''https://shop.example:8443'') \<and>
   (\<exists>d. prepareChallengeData (helpers (Nothing Falsy_undefined)) (b64_encode challenge_token_text)
          ''05'' Undefined = Inr d \<and>
        ChallengeData.postMessageDomain d = Str ''https://merchant.example'') \<and>
   (\<exists>f. prepareFingerPrintData (helpers (Nothing Falsy_undefined))
          (b64_encode fingerprint_token_text) (Str ''https://shop.example:8443/3ds?x=1'') = Inr f \<and>
        FingerPrintData.postMessageDomain f = Str ''https://shop.example:8443'') \<and>
   (\<exists>f. prepareFingerPrintData (helpers (Nothing Falsy_undefined))
          (b64_encode fingerprint_token_text) Undefined = Inr f \<and>
        FingerPrintData.postMessageDomain f = Str ''https://merchant.example'')"
proof -
  have g: "getOrigin (helpers (Nothing Falsy_undefined)) = spec_getOrigin"
    by (simp add: helpers_def)
  note c = postMessageDomain_precedence[OF challenge_token_decoded, THEN conjunct1,
      of "Nothing Falsy_undefined" "''05''"]
  note f = postMessageDomain_precedence[OF fingerprint_token_decoded, THEN conjunct2,
      of "Nothing Falsy_undefined"]
  show ?thesis
    using c[of "Str ''https://shop.example:8443/3ds?x=1''"] c[of Undefined]
      f[of "Str ''https://shop.example:8443/3ds?x=1''"] f[of Undefined]
    by (simp add: g origin_examples property_of_Obj get_property_def del: spec_getOrigin.simps)
qed

text \<open>
  C7. The fingerprint scenario, with \<^verbatim>\<open>base64\<close> and \<^verbatim>\<open>getOrigin\<close> as the
  specification describes them. The token is the base64 encoding of the JSON text with
  \<^verbatim>\<open>threeDSServerTransID\<close>, \<^verbatim>\<open>threeDSMethodUrl\<close> and
  \<^verbatim>\<open>threeDSMethodNotificationURL\<close>; the caller gives no \<^verbatim>\<open>notificationURL\<close>.
  \<^verbatim>\<open>prepareFingerPrintData\<close> returns \<^verbatim>\<open>threeDSServerTransID\<close> \<^verbatim>\<open>abc\<close>, the token's
  \<^verbatim>\<open>threeDSMethodUrl\<close> as \<^verbatim>\<open>threeDSMethodURL\<close>, and the \<^verbatim>\<open>postMessageDomain\<close>
  \<^verbatim>\<open>https://merchant.example\<close>.
\<close>

theorem prepareFingerPrintData_scenario:
  \<open>b64_encode ''{"threeDSServerTransID":"abc","threeDSMethodUrl":"https://acs.example/m","threeDSMethodNotificationURL":"https://merchant.example/notify"}'' =
     ''eyJ0aHJlZURTU2VydmVyVHJhbnNJRCI6ImFiYyIsInRocmVlRFNNZXRob2RVcmwiOiJodHRwczovL2Fjcy5leGFtcGxlL20iLCJ0aHJlZURTTWV0aG9kTm90aWZpY2F0aW9uVVJMIjoiaHR0cHM6Ly9tZXJjaGFudC5leGFtcGxlL25vdGlmeSJ9'' \<and>
   prepareFingerPrintData (helpers (Nothing Falsy_undefined))
     ''eyJ0aHJlZURTU2VydmVyVHJhbnNJRCI6ImFiYyIsInRocmVlRFNNZXRob2RVcmwiOiJodHRwczovL2Fjcy5leGFtcGxlL20iLCJ0aHJlZURTTWV0aG9kTm90aWZpY2F0aW9uVVJMIjoiaHR0cHM6Ly9tZXJjaGFudC5leGFtcGxlL25vdGlmeSJ9''
     Undefined =
   Inr \<lparr>FingerPrintData.threeDSServerTransID = Str ''abc'',
        threeDSMethodURL = Str ''https://acs.example/m'',
        threeDSMethodNotificationURL = Str ''https://merchant.example/notify'',
        FingerPrintData.postMessageDomain = Str ''https://merchant.example''\<rparr>\<close>
  by code_simp

text \<open>
  C8. The challenge request. Let the default size code be a code of the size table. For
  every token that \<^verbatim>\<open>decodeAndParseToken\<close> decodes and every size string, the
  \<^verbatim>\<open>ChallengeData\<close> that \<^verbatim>\<open>prepareChallengeData\<close> returns has the \<^verbatim>\<open>messageType\<close>
  \<^verbatim>\<open>CReq\<close>, has \<^verbatim>\<open>acsTransID\<close>, \<^verbatim>\<open>messageVersion\<close> and \<^verbatim>\<open>threeDSServerTransID\<close>
  as they are in the decoded token, has the validated size as \<^verbatim>\<open>challengeWindowSize\<close>,
  and has as \<^verbatim>\<open>iframeSizeArr\<close> the entry of the size table for that
  \<^verbatim>\<open>challengeWindowSize\<close>. It returns unless the token decodes to \<^verbatim>\<open>null\<close> or
  \<^verbatim>\<open>undefined\<close>.
\<close>

theorem prepareChallengeData_cReq:
  assumes "decodeAndParseToken imp token = Inr tok"
    and dflt: "hasOwnProperty (CHALLENGE_WINDOW_SIZES imp) (DEFAULT_CHALLENGE_WINDOW_SIZE imp)"
  shows "if nullish tok
         then prepareChallengeData imp token size' notificationURL = Inl TypeError
         else (\<exists>d. prepareChallengeData imp token size' notificationURL = Inr d \<and>
                 messageType (cReqData d) = ''CReq'' \<and>
                 acsTransID (cReqData d) = property_of tok ''acsTransID'' \<and>
                 messageVersion (cReqData d) = property_of tok ''messageVersion'' \<and>
                 CReqData.threeDSServerTransID (cReqData d) =
                   property_of tok ''threeDSServerTransID'' \<and>
                 challengeWindowSize (cReqData d) = validateChallengeWindowSize imp size' \<and>
                 map_of (CHALLENGE_WINDOW_SIZES imp) (challengeWindowSize (cReqData d)) =
                   Some (iframeSizeArr d))"
proof (cases "nullish tok")
  case True
  with prepare_nullish(1)[OF assms(1)] show ?thesis by simp
next
  case False
  with prepareChallengeData_returns[OF assms(1)]
    get_property_own[OF validateChallengeWindowSize_own[OF dflt, of size']]
  show ?thesis by (simp add: getChallengeWindowSize_def)
qed

theorem prepareChallengeData_cReq_witness:
  "\<exists>d. prepareChallengeData (helpers (Nothing Falsy_undefined)) (b64_encode challenge_token_text)
         ''9'' Undefined = Inr d \<and>
       messageType (cReqData d) = ''CReq'' \<and>
       acsTransID (cReqData d) = Str ''t-1'' \<and>
       messageVersion (cReqData d) = Str ''2.1.0'' \<and>
       CReqData.threeDSServerTransID (cReqData d) = Str ''abc'' \<and>
       challengeWindowSize (cReqData d) = ''02'' \<and>
       iframeSizeArr d = Arr [Str ''390px'', Str ''400px'']"
proof -
  have dflt: "hasOwnProperty (CHALLENGE_WINDOW_SIZES (helpers (Nothing Falsy_undefined)))
      (DEFAULT_CHALLENGE_WINDOW_SIZE (helpers (Nothing Falsy_undefined)))"
    by (simp add: helpers_def hasOwnProperty_def)
  have v: "validateChallengeWindowSize (helpers (Nothing Falsy_undefined)) ''9'' = ''02''"
    by (simp add: validateChallengeWindowSize_def helpers_def hasOwnProperty_def)
  have s: "CHALLENGE_WINDOW_SIZES (helpers (Nothing Falsy_undefined)) =
        [(''01'', Arr [Str ''250px'', Str ''400px'']),
         (''02'', Arr [Str ''390px'', Str ''400px'']),
         (''03'', Arr [Str ''500px'', Str ''600px'']),
         (''04'', Arr [Str ''600px'', Str ''400px'']),
         (''05'', Arr [Str ''100%'', Str ''100%''])]"
    by (simp add: helpers_def)
  show ?thesis
    using prepareChallengeData_cReq[OF challenge_token_decoded dflt, of "''9''" Undefined]
    by (auto simp add: v s property_of_Obj get_property_def)
qed

text \<open>
  C10. For every token that \<^verbatim>\<open>decodeAndParseToken\<close> decodes, the
  \<^verbatim>\<open>threeDSMethodNotificationURL\<close> of the \<^verbatim>\<open>FingerPrintData\<close> that
  \<^verbatim>\<open>prepareFingerPrintData\<close> returns is the resolved notification URL: the caller's
  \<^verbatim>\<open>notificationURL\<close> when one is provided (a truthy value: a non-empty string), else
  the token's \<^verbatim>\<open>threeDSMethodNotificationURL\<close>. With an override the field is the
  override, not the token's URL.
\<close>

theorem prepareFingerPrintData_notificationURL:
  assumes "decodeAndParseToken imp token = Inr tok"
  shows "if nullish tok
         then prepareFingerPrintData imp token notificationURL = Inl TypeError
         else (\<exists>f. prepareFingerPrintData imp token notificationURL = Inr f \<and>
                 threeDSMethodNotificationURL f =
                   (if truthy_value notificationURL then notificationURL
                    else property_of tok ''threeDSMethodNotificationURL''))"
proof (cases "nullish tok")
  case True
  with prepare_nullish(2)[OF assms] show ?thesis by simp
next
  case False
  with prepareFingerPrintData_returns[OF assms] show ?thesis by (simp add: or_else_def)
qed

theorem prepareFingerPrintData_notificationURL_witness:
  "(\<exists>f. prepareFingerPrintData (helpers (Nothing Falsy_undefined))
          (b64_encode fingerprint_token_text) (Str ''https://shop.example:8443/3ds?x=1'') = Inr f \<and>
        threeDSMethodNotificationURL f = Str ''https://shop.example:8443/3ds?x=1'') \<and>
   (\<exists>f. prepareFingerPrintData (helpers (Nothing Falsy_undefined))
          (b64_encode fingerprint_token_text) Undefined = Inr f \<and>
        threeDSMethodNotificationURL f = Str ''https://merchant.example/notify'')"
proof -
  note f = prepareFingerPrintData_notificationURL[OF fingerprint_token_decoded,
      of "Nothing Falsy_undefined"]
  show ?thesis
    using f[of "Str ''https://shop.example:8443/3ds?x=1''"] f[of Undefined]
    by (simp add: property_of_Obj get_property_def)
qed

section \<open>The error classifier\<close>

text \<open>
  C6 fails on the code for an error code that names a member of \<^verbatim>\<open>Object.prototype\<close>.
  \<^verbatim>\<open>handleErrorCode\<close> reads \<^verbatim>\<open>ERROR_MESSAGES[errorCode]\<close> without the
  \<^verbatim>\<open>hasOwnProperty\<close> test that \<^verbatim>\<open>validateChallengeWindowSize\<close> makes on its table, so
  for \<^verbatim>\<open>constructor\<close>, which is not a code of the message table, the message is the
  inherited member (a function, which is truthy) and not the ``unknown error'' message.
\<close>

theorem handleErrorCode_inherited:
  "handleErrorCode (helpers (Nothing Falsy_undefined)) ''constructor'' =
     \<lparr>errorCode = ''constructor'', message = Inherited ''constructor''\<rparr> \<and>
   hasOwnProperty (ERROR_MESSAGES (helpers (Nothing Falsy_undefined))) ''constructor'' = False \<and>
   get_property (ERROR_MESSAGES (helpers (Nothing Falsy_undefined)))
     (ERRORS_UNKNOWN (helpers (Nothing Falsy_undefined))) = Str ''An unknown error occurred''"
  by (simp add: handleErrorCode_def helpers_def get_property_def or_else_def Object_prototype_def
        hasOwnProperty_def)

text \<open>
  The same holds for every table and every name of \<^verbatim>\<open>Object.prototype\<close> that is not
  an own property of the table.
\<close>

lemma handleErrorCode_inherited_any_table:
  assumes "\<not> hasOwnProperty (ERROR_MESSAGES imp) k" and "k \<in> set Object_prototype"
  shows "handleErrorCode imp k = \<lparr>errorCode = k, message = Inherited k\<rparr>"
proof -
  from assms(1) have "map_of (ERROR_MESSAGES imp) k = None"
    unfolding hasOwnProperty_def by (simp add: map_of_eq_None_iff)
  with assms(2) show ?thesis
    by (simp add: handleErrorCode_def get_property_def or_else_def Let_def)
qed

text \<open>
  For every other error code the classifier does what C6 says: when every message of the
  table is a non-empty string and the table has the ``unknown error'' message, the error
  code is returned as it is, and the message is the table's entry for the code, or the
  ``unknown error'' message when the table has none; it is a non-empty string.
\<close>

lemma handleErrorCode_outside_prototype:
  assumes outside: "errorCode' \<notin> set Object_prototype"
    and messages: "\<And>k m. (k, m) \<in> set (ERROR_MESSAGES imp) \<Longrightarrow> \<exists>s. m = Str s \<and> s \<noteq> []"
    and unknown: "map_of (ERROR_MESSAGES imp) (ERRORS_UNKNOWN imp) = Some u"
  shows "errorCode (handleErrorCode imp errorCode') = errorCode' \<and>
         message (handleErrorCode imp errorCode') =
           (case map_of (ERROR_MESSAGES imp) errorCode' of Some m \<Rightarrow> m | None \<Rightarrow> u) \<and>
         (\<exists>s. message (handleErrorCode imp errorCode') = Str s \<and> s \<noteq> [])"
proof -
  from unknown have "(ERRORS_UNKNOWN imp, u) \<in> set (ERROR_MESSAGES imp)"
    by (rule map_of_SomeD)
  with messages obtain su where u: "u = Str su" "su \<noteq> []" by blast
  show ?thesis
  proof (cases "map_of (ERROR_MESSAGES imp) errorCode'")
    case None
    with outside unknown u show ?thesis
      by (simp add: handleErrorCode_def get_property_def or_else_def Let_def)
  next
    case (Some m)
    then have "(errorCode', m) \<in> set (ERROR_MESSAGES imp)"
      by (rule map_of_SomeD)
    with messages obtain s where "m = Str s" "s \<noteq> []" by blast
    with Some unknown show ?thesis
      by (simp add: handleErrorCode_def get_property_def or_else_def Let_def)
  qed
qed

end
